theory Spec2Isabelle
  imports Complex_Main "HOL-Library.Sublist" "HOL-Library.AList" "HOL-Library.Log_Nat"
    "HOL-Library.Word"
begin

section \<open>Shared data model\<close>

text \<open>
  Timestamps. The repository hands every timestamp over as an ISO-8601 text in UTC, in one
  canonical format, so two timestamp texts are equal exactly when they denote the same
  instant. The model represents a timestamp by that instant: an integer number of
  milliseconds since the epoch (what \<^verbatim>\<open>new Date(s).getTime()\<close> returns). The calendar
  date in front of the letter T (\<^verbatim>\<open>s.split('T')[0]\<close> of such a text, or of
  \<^verbatim>\<open>d.toISOString()\<close>) is represented by the number of the UTC day.
\<close>

type_synonym instant = int

definition msPerDay :: int where
  "msPerDay = 24 * 60 * 60 * 1000"

definition dateKey :: "instant \<Rightarrow> int" where
  "dateKey t = t div msPerDay"

text \<open>
  Texts that are searched are JavaScript strings: lists of UTF-16 code units. Texts that are
  only compared for equality or displayed (identifiers, names, colors, priorities, toasts)
  are plain strings.
\<close>

type_synonym code_unit = "16 word"

type_synonym js_string = "code_unit list"

text \<open>
  The operations of the JavaScript runtime whose results depend on the Unicode tables or on
  the time zone of the browser are not code of this repository; the model takes them as
  parameters, the fields of a \<open>runtime\<close>:
  \<^item> \<open>toLowerCase\<close>: \<^verbatim>\<open>String.prototype.toLowerCase\<close>;
  \<^item> \<open>localMidnight now\<close>: \<^verbatim>\<open>new Date(now.getFullYear(), now.getMonth(), now.getDate())\<close>,
    the start of the local day of \<open>now\<close>;
  \<^item> \<open>plusDays d n\<close>: the instant of \<open>d\<close> after \<^verbatim>\<open>d.setDate(d.getDate() + n)\<close>, which
    moves by \<open>n\<close> days of the local calendar;
  \<^item> \<open>weekdayShort day\<close>: for the calendar date \<open>day\<close>,
    \<^verbatim>\<open>new Date(date).toLocaleDateString('en-US', { weekday: 'short' })\<close>, the week day
    in local time of the UTC midnight of that date.
\<close>

record runtime =
  toLowerCase :: "js_string \<Rightarrow> js_string"
  localMidnight :: "instant \<Rightarrow> instant"
  plusDays :: "instant \<Rightarrow> int \<Rightarrow> instant"
  weekdayShort :: "int \<Rightarrow> string"

record category =
  cat_id :: string
  cat_name :: string
  cat_color :: string

record task =
  tid :: string
  title :: js_string
  description :: "js_string option"
  completed :: bool
  due_date :: "instant option"
  priority :: string
  estimated_time :: "nat option"
  created_at :: instant
  category :: "category option"

section \<open>Tasks page: the task filter and the overdue indicator\<close>

subsection \<open>The string operations of the filter\<close>

text \<open>
  \<^verbatim>\<open>trim\<close> removes white space and line terminators at both ends: the code units
  U+0009 to U+000D, U+0020, U+00A0, U+1680, U+2000 to U+200A, U+2028, U+2029, U+202F,
  U+205F, U+3000 and U+FEFF. \<^verbatim>\<open>includes\<close> looks for a contiguous occurrence of
  code units.
\<close>

definition isWhiteSpace :: "code_unit \<Rightarrow> bool" where
  "isWhiteSpace u =
     (let n = unat u
      in n \<in> {9, 10, 11, 12, 13, 32, 160, 5760, 8232, 8233, 8239, 8287, 12288, 65279} \<or>
         (8192 \<le> n \<and> n \<le> 8202))"

definition trim :: "js_string \<Rightarrow> js_string" where
  "trim s = rev (dropWhile isWhiteSpace (rev (dropWhile isWhiteSpace s)))"

fun str_includes :: "'a list \<Rightarrow> 'a list \<Rightarrow> bool" where
  "str_includes [] needle = (needle = [])"
| "str_includes (c # cs) needle = (prefix needle (c # cs) \<or> str_includes cs needle)"

subsection \<open>filterTasks\<close>

datatype status_filter = StatusAll | StatusCompleted | StatusPending

datatype priority_filter = PriorityAll | PriorityHigh | PriorityMedium | PriorityLow

fun priorityText :: "priority_filter \<Rightarrow> string" where
  "priorityText PriorityAll = ''all''"
| "priorityText PriorityHigh = ''high''"
| "priorityText PriorityMedium = ''medium''"
| "priorityText PriorityLow = ''low''"

definition matchesSearch :: "runtime \<Rightarrow> js_string \<Rightarrow> task \<Rightarrow> bool" where
  "matchesSearch rt searchQuery t =
     (str_includes (toLowerCase rt (title t)) (toLowerCase rt searchQuery) \<or>
      (case description t of
         None \<Rightarrow> False
       | Some d \<Rightarrow> str_includes (toLowerCase rt d) (toLowerCase rt searchQuery)))"

definition filterTasks ::
  "runtime \<Rightarrow> task list \<Rightarrow> js_string \<Rightarrow> status_filter \<Rightarrow> priority_filter \<Rightarrow> task list" where
  "filterTasks rt tasks searchQuery statusFilter priorityFilter =
     (let filtered0 = tasks;
          filtered1 = (if trim searchQuery \<noteq> []
                       then filter (matchesSearch rt searchQuery) filtered0
                       else filtered0);
          filtered2 = (if statusFilter \<noteq> StatusAll
                       then filter (\<lambda>t. if statusFilter = StatusCompleted
                                        then completed t else \<not> completed t) filtered1
                       else filtered1);
          filtered3 = (if priorityFilter \<noteq> PriorityAll
                       then filter (\<lambda>t. priority t = priorityText priorityFilter) filtered2
                       else filtered2)
      in filtered3)"

subsection \<open>isOverdue\<close>

text \<open>
  \<^verbatim>\<open>tasks.find(t => t.due_date === dueDate)?.completed\<close> is undefined, hence falsy, when
  no task has that due date.
\<close>

definition isOverdue :: "instant \<Rightarrow> task list \<Rightarrow> instant \<Rightarrow> bool" where
  "isOverdue now tasks dueDate =
     (dueDate < now \<and>
      \<not> (case find (\<lambda>t. due_date t = Some dueDate) tasks of
           None \<Rightarrow> False
         | Some t \<Rightarrow> completed t))"

text \<open>
  The indicator of one rendered row: rows without a due date show none; the others are
  red when \<open>isOverdue\<close> of their due date holds.
\<close>

definition overdueIndicator :: "instant \<Rightarrow> task list \<Rightarrow> task \<Rightarrow> bool option" where
  "overdueIndicator now tasks t =
     (case due_date t of None \<Rightarrow> None | Some d \<Rightarrow> Some (isOverdue now tasks d))"

section \<open>Timer page: the timer session\<close>

text \<open>
  The component state of the timer, the calls it sends to the repository and the toasts it
  shows. A repository call is asynchronous; its answer is an argument of the operation
  (used only on the paths that send the call), and the calls sent are returned as a list,
  in order.
\<close>

record time_entry =
  entry_id :: string
  task_id :: string
  start_time :: instant
  end_time :: "instant option"
  duration :: "int option"

record timer_state =
  selectedTaskId :: string
  isRunning :: bool
  currentTime :: nat
  activeEntryId :: "string option"

datatype repo_call =
    InsertTimeEntry string instant
  | UpdateTimeEntry string instant nat
  | ListTimeEntries

datatype toast_variant = Default | Destructive

record toast =
  toast_title :: string
  toast_description :: string
  variant :: toast_variant

type_synonym timer_result = "timer_state \<times> repo_call list \<times> toast list"

fun showNat :: "nat \<Rightarrow> string" where
  "showNat n =
     (if n < 10 then [char_of (48 + n)]
      else showNat (n div 10) @ [char_of (48 + n mod 10)])"

declare showNat.simps [simp del]

definition padStart2 :: "string \<Rightarrow> string" where
  "padStart2 s = replicate (2 - length s) (CHR ''0'') @ s"

definition formatTime :: "nat \<Rightarrow> string" where
  "formatTime seconds =
     (let hours = seconds div 3600;
          minutes = (seconds mod 3600) div 60;
          secs = seconds mod 60
      in if hours > 0
         then showNat hours @ '':'' @ padStart2 (showNat minutes) @ '':'' @ padStart2 (showNat secs)
         else showNat minutes @ '':'' @ padStart2 (showNat secs))"

text \<open>
  \<^verbatim>\<open>startTimer\<close>: the answer of the insert is \<open>Inl\<close> an error or \<open>Inr\<close> the id of the
  new row. \<^verbatim>\<open>!selectedTaskId\<close> holds for the empty string.
\<close>

definition startTimer :: "instant \<Rightarrow> string + string \<Rightarrow> timer_state \<Rightarrow> timer_result" where
  "startTimer now inserted st =
     (if selectedTaskId st = []
      then (st, [],
            [\<lparr>toast_title = ''Select a task'',
              toast_description = ''Please select a task to track time for.'',
              variant = Destructive\<rparr>])
      else
        (case inserted of
           Inl err \<Rightarrow>
             (st, [InsertTimeEntry (selectedTaskId st) now],
              [\<lparr>toast_title = ''Error'',
                toast_description = ''Failed to start timer.'',
                variant = Destructive\<rparr>])
         | Inr dataId \<Rightarrow>
             (st\<lparr>activeEntryId := Some dataId, isRunning := True, currentTime := 0\<rparr>,
              [InsertTimeEntry (selectedTaskId st) now],
              [\<lparr>toast_title = ''Timer started'',
                toast_description = ''Time tracking has begun for the selected task.'',
                variant = Default\<rparr>])))"

definition pauseTimer :: "timer_state \<Rightarrow> timer_state" where
  "pauseTimer st = st\<lparr>isRunning := False\<rparr>"

text \<open>
  \<^verbatim>\<open>stopTimer\<close>: \<^verbatim>\<open>!activeEntryId\<close> holds for null and for the empty string. The answer
  of the update is an error or nothing.
\<close>

definition stopTimer :: "instant \<Rightarrow> string option \<Rightarrow> timer_state \<Rightarrow> timer_result" where
  "stopTimer now updated st =
     (case activeEntryId st of
        None \<Rightarrow> (st, [], [])
      | Some entryId \<Rightarrow>
          if entryId = [] then (st, [], [])
          else
            (case updated of
               Some err \<Rightarrow>
                 (st, [UpdateTimeEntry entryId now (currentTime st)],
                  [\<lparr>toast_title = ''Error'',
                    toast_description = ''Failed to stop timer.'',
                    variant = Destructive\<rparr>])
             | None \<Rightarrow>
                 (st\<lparr>isRunning := False, currentTime := 0, activeEntryId := None\<rparr>,
                  [UpdateTimeEntry entryId now (currentTime st), ListTimeEntries],
                  [\<lparr>toast_title = ''Timer stopped'',
                    toast_description = ''Time logged: '' @ formatTime (currentTime st),
                    variant = Default\<rparr>])))"

section \<open>Dashboard: the statistics of the task list\<close>

record stats =
  totalTasks :: nat
  completedTasks :: nat
  todayTasks :: nat
  overdueTasks :: nat

text \<open>
  The block "Calculate stats" of the dashboard's \<^verbatim>\<open>fetchTasks\<close>. The answer of the query
  may be null (\<^verbatim>\<open>tasksData?.length || 0\<close>); \<open>today\<close> is the local midnight of \<open>now\<close>.
\<close>

definition calculateStats :: "runtime \<Rightarrow> instant \<Rightarrow> task list option \<Rightarrow> stats" where
  "calculateStats rt now tasksData =
     (let today = localMidnight rt now in
      case tasksData of
        None \<Rightarrow> \<lparr>totalTasks = 0, completedTasks = 0, todayTasks = 0, overdueTasks = 0\<rparr>
      | Some ts \<Rightarrow>
          \<lparr>totalTasks = length ts,
           completedTasks = length (filter completed ts),
           todayTasks = length (filter (\<lambda>t.
              case due_date t of
                None \<Rightarrow> False
              | Some dueDate \<Rightarrow> dueDate \<ge> today \<and> dueDate < today + 24 * 60 * 60 * 1000) ts),
           overdueTasks = length (filter (\<lambda>t.
              case due_date t of
                None \<Rightarrow> False
              | Some dueDate \<Rightarrow> if completed t then False else dueDate < today) ts)\<rparr>)"

section \<open>Analytics page: the aggregation\<close>

text \<open>
  Numbers. A JavaScript number is an IEEE 754 double; here it is the rational it denotes.
  Integers are exact (up to \<open>2\<^sup>5\<^sup>3\<close>, far above any count or sum of seconds), so counts
  and durations are integers. A quotient or product is computed exactly and then rounded
  to the nearest double, ties to the even significand: \<open>toDouble\<close>, with 53 significant
  bits and the subnormal exponent \<open>-1074\<close> (overflow to infinity is out of reach and not
  modelled). \<open>binade x\<close> is the exponent of the power of two at or below a positive \<open>x\<close>.
  \<^verbatim>\<open>Math.round\<close> returns the nearest integer, the larger one of two equally near.
\<close>

definition roundTiesToEven :: "rat \<Rightarrow> int" where
  "roundTiesToEven y =
     (let f = \<lfloor>y\<rfloor>; r = y - of_int f
      in if r < 1 / 2 then f else if 1 / 2 < r then f + 1 else if even f then f else f + 1)"

definition binade :: "rat \<Rightarrow> int" where
  "binade x = (if 1 \<le> x then bitlen \<lfloor>x\<rfloor> - 1 else - bitlen (\<lceil>1 / x\<rceil> - 1))"

definition toDouble :: "rat \<Rightarrow> rat" where
  "toDouble x =
     (if x = 0 then 0
      else let e = max (binade \<bar>x\<bar> - 52) (- 1074)
           in sgn x * of_int (roundTiesToEven (\<bar>x\<bar> / 2 powi e)) * 2 powi e)"

definition divide_js :: "rat \<Rightarrow> rat \<Rightarrow> rat" where
  "divide_js a b = toDouble (a / b)"

definition times_js :: "rat \<Rightarrow> rat \<Rightarrow> rat" where
  "times_js a b = toDouble (a * b)"

definition Math_round :: "rat \<Rightarrow> int" where
  "Math_round x = \<lfloor>x + 1 / 2\<rfloor>"

text \<open>
  A JavaScript Map keeps its keys in the order of their first insertion; \<^verbatim>\<open>set\<close> on a
  present key replaces the value in place. This is an association list with
  \<^const>\<open>AList.update\<close>; \<^verbatim>\<open>has\<close> and \<^verbatim>\<open>get\<close> are \<^const>\<open>map_of\<close>.
\<close>

record day_bucket =
  day_date :: int
  day_completed :: nat
  day_total :: nat

record daily_completion =
  dc_date :: string
  dc_completed :: nat
  dc_total :: nat

record category_slice =
  cb_name :: string
  cb_value :: nat
  cb_color :: string

record time_point =
  tp_date :: string
  tp_minutes :: int

record weekly_stats =
  tasksCompleted :: nat
  timeTracked :: int
  averageTimePerTask :: int
  completionRate :: int

record analytics_data =
  dailyCompletion :: "daily_completion list"
  categoryBreakdown :: "category_slice list"
  timeSpent :: "time_point list"
  weeklyStats :: weekly_stats

text \<open>The answer of a query may be null: \<^verbatim>\<open>tasks?.forEach\<close>, \<^verbatim>\<open>tasks?.filter(...) || []\<close>.\<close>

definition rowsOf :: "'a list option \<Rightarrow> 'a list" where
  "rowsOf answer = (case answer of None \<Rightarrow> [] | Some xs \<Rightarrow> xs)"

text \<open>\<^verbatim>\<open>xs.slice(-7)\<close>: the last seven elements, all of them when there are fewer.\<close>

definition sliceLast7 :: "'a list \<Rightarrow> 'a list" where
  "sliceLast7 xs = drop (length xs - 7) xs"

text \<open>
  The loop \<^verbatim>\<open>for (let d = new Date(startDate); d <= endDate; d.setDate(d.getDate() + 1))\<close>
  that fills \<^verbatim>\<open>dailyData\<close>. It ends when the runtime's next day lies after
  \<^verbatim>\<open>endDate\<close>; a loop that never ends has the value \<open>None\<close>.
\<close>

partial_function (option) initDailyData ::
  "runtime \<Rightarrow> instant \<Rightarrow> instant \<Rightarrow> (int \<times> day_bucket) list
     \<Rightarrow> (int \<times> day_bucket) list option" where
  "initDailyData rt d endDate dailyData =
     (if d \<le> endDate
      then initDailyData rt (plusDays rt d 1) endDate
             (AList.update (dateKey d)
                \<lparr>day_date = dateKey d, day_completed = 0, day_total = 0\<rparr> dailyData)
      else Some dailyData)"

text \<open>The body of \<^verbatim>\<open>tasks?.forEach\<close> over \<^verbatim>\<open>dailyData\<close>.\<close>

definition countTask :: "task \<Rightarrow> (int \<times> day_bucket) list \<Rightarrow> (int \<times> day_bucket) list" where
  "countTask t dailyData =
     (let createdDate = dateKey (created_at t) in
      case map_of dailyData createdDate of
        None \<Rightarrow> dailyData
      | Some day \<Rightarrow>
          AList.update createdDate
            (day\<lparr>day_total := day_total day + 1,
                 day_completed := (if completed t then day_completed day + 1
                                   else day_completed day)\<rparr>)
            dailyData)"

text \<open>The body of \<^verbatim>\<open>tasks?.forEach\<close> over \<^verbatim>\<open>categoryData\<close>.\<close>

definition countCategory ::
  "task \<Rightarrow> (string \<times> category_slice) list \<Rightarrow> (string \<times> category_slice) list" where
  "countCategory t categoryData =
     (case category t of
        None \<Rightarrow> categoryData
      | Some c \<Rightarrow>
          (let categoryName = cat_name c in
           case map_of categoryData categoryName of
             Some old \<Rightarrow>
               AList.update categoryName (old\<lparr>cb_value := cb_value old + 1\<rparr>) categoryData
           | None \<Rightarrow>
               AList.update categoryName
                 \<lparr>cb_name = categoryName, cb_value = 1, cb_color = cat_color c\<rparr>
                 categoryData))"

text \<open>\<^verbatim>\<open>entry.duration || 0\<close>\<close>

definition durationOrZero :: "time_entry \<Rightarrow> int" where
  "durationOrZero entry = (case duration entry of None \<Rightarrow> 0 | Some n \<Rightarrow> n)"

text \<open>The body of \<^verbatim>\<open>timeEntries?.forEach\<close> over \<^verbatim>\<open>timeData\<close>.\<close>

definition addEntry :: "time_entry \<Rightarrow> (int \<times> int) list \<Rightarrow> (int \<times> int) list" where
  "addEntry entry timeData =
     (let date = dateKey (start_time entry);
          minutes = Math_round (divide_js (of_int (durationOrZero entry)) 60)
      in case map_of timeData date of
           Some old \<Rightarrow> AList.update date (old + minutes) timeData
         | None \<Rightarrow> AList.update date minutes timeData)"

definition dailyDataOf ::
  "runtime \<Rightarrow> instant \<Rightarrow> instant \<Rightarrow> task list option \<Rightarrow> (int \<times> day_bucket) list option" where
  "dailyDataOf rt startDate endDate tasks =
     map_option (fold countTask (rowsOf tasks)) (initDailyData rt startDate endDate [])"

definition categoryDataOf :: "task list option \<Rightarrow> (string \<times> category_slice) list" where
  "categoryDataOf tasks = fold countCategory (rowsOf tasks) []"

definition timeDataOf :: "time_entry list option \<Rightarrow> (int \<times> int) list" where
  "timeDataOf timeEntries = fold addEntry (rowsOf timeEntries) []"

definition weekTasksOf :: "instant \<Rightarrow> task list option \<Rightarrow> task list" where
  "weekTasksOf weekStart tasks = filter (\<lambda>t. created_at t \<ge> weekStart) (rowsOf tasks)"

definition weekTimeEntriesOf :: "instant \<Rightarrow> time_entry list option \<Rightarrow> time_entry list" where
  "weekTimeEntriesOf weekStart timeEntries =
     filter (\<lambda>entry. start_time entry \<ge> weekStart) (rowsOf timeEntries)"

text \<open>\<^verbatim>\<open>weekTimeEntries.reduce((total, entry) => total + (entry.duration || 0), 0)\<close>\<close>

definition timeTrackedOf :: "time_entry list \<Rightarrow> int" where
  "timeTrackedOf weekTimeEntries =
     fold (\<lambda>entry total. total + durationOrZero entry) weekTimeEntries 0"

definition weeklyStatsOf :: "task list \<Rightarrow> time_entry list \<Rightarrow> weekly_stats" where
  "weeklyStatsOf weekTasks weekTimeEntries =
     (let tasksCompleted' = length (filter completed weekTasks);
          timeTracked' = timeTrackedOf weekTimeEntries;
          averageTimePerTask' =
            (if tasksCompleted' > 0
             then divide_js (divide_js (of_int timeTracked') (of_nat tasksCompleted')) 60
             else (0 :: rat));
          completionRate' =
            (if length weekTasks > 0
             then times_js (divide_js (of_nat tasksCompleted') (of_nat (length weekTasks))) 100
             else (0 :: rat))
      in \<lparr>tasksCompleted = tasksCompleted',
          timeTracked = Math_round (divide_js (of_int timeTracked') 60),
          averageTimePerTask = Math_round averageTimePerTask',
          completionRate = Math_round completionRate'\<rparr>)"

text \<open>
  Lines 72 to 159 of \<^verbatim>\<open>fetchAnalytics\<close>: from the answers of the two queries and the
  three dates to the value given to \<^verbatim>\<open>setAnalytics\<close>.
\<close>

definition aggregate ::
  "runtime \<Rightarrow> instant \<Rightarrow> instant \<Rightarrow> instant \<Rightarrow> task list option \<Rightarrow> time_entry list option
     \<Rightarrow> analytics_data option" where
  "aggregate rt startDate endDate weekStart tasks timeEntries =
     (case dailyDataOf rt startDate endDate tasks of
        None \<Rightarrow> None
      | Some dailyData \<Rightarrow>
          Some
           \<lparr>dailyCompletion =
              map (\<lambda>day. \<lparr>dc_date = weekdayShort rt (day_date day),
                           dc_completed = day_completed day,
                           dc_total = day_total day\<rparr>)
                (sliceLast7 (map snd dailyData)),
            categoryBreakdown = map snd (categoryDataOf tasks),
            timeSpent =
              map (\<lambda>(date, minutes). \<lparr>tp_date = weekdayShort rt date, tp_minutes = minutes\<rparr>)
                (sliceLast7 (timeDataOf timeEntries)),
            weeklyStats =
              weeklyStatsOf (weekTasksOf weekStart tasks)
                (weekTimeEntriesOf weekStart timeEntries)\<rparr>)"

text \<open>
  The two queries, over tables that hold the rows of the signed-in user: tasks created at
  or after \<^verbatim>\<open>startDate\<close>; time entries started at or after \<^verbatim>\<open>startDate\<close> whose
  duration is not null.
\<close>

definition tasksQuery :: "instant \<Rightarrow> task list \<Rightarrow> task list" where
  "tasksQuery startDate table = filter (\<lambda>t. created_at t \<ge> startDate) table"

definition timeEntriesQuery :: "instant \<Rightarrow> time_entry list \<Rightarrow> time_entry list" where
  "timeEntriesQuery startDate table =
     filter (\<lambda>entry. start_time entry \<ge> startDate \<and> duration entry \<noteq> None) table"

text \<open>
  \<^verbatim>\<open>fetchAnalytics\<close>. The clock is read three times, in this order: for \<^verbatim>\<open>endDate\<close>,
  for \<^verbatim>\<open>startDate\<close> and for \<^verbatim>\<open>weekStart\<close>. A table is \<open>Inl\<close> an error when its query
  fails; then the error toast is shown and the analytics are not set.
\<close>

definition fetchAnalytics ::
  "runtime \<Rightarrow> instant \<Rightarrow> instant \<Rightarrow> instant \<Rightarrow> string + task list
     \<Rightarrow> string + time_entry list \<Rightarrow> (toast + analytics_data) option" where
  "fetchAnalytics rt clock1 clock2 clock3 taskTable entryTable =
     (let endDate = clock1;
          startDate = plusDays rt clock2 (- 30);
          failed = \<lparr>toast_title = ''Error'',
                    toast_description = ''Failed to fetch analytics data.'',
                    variant = Destructive\<rparr>
      in case taskTable of
           Inl tasksError \<Rightarrow> Some (Inl failed)
         | Inr taskRows \<Rightarrow>
             (case entryTable of
                Inl timeError \<Rightarrow> Some (Inl failed)
              | Inr entryRows \<Rightarrow>
                  map_option Inr
                    (aggregate rt startDate endDate (plusDays rt clock3 (- 7))
                       (Some (tasksQuery startDate taskRows))
                       (Some (timeEntriesQuery startDate entryRows)))))"

section \<open>Notions of the specification\<close>

text \<open>
  What the claims are stated with, beside the code. A text contains a search text "case
  insensitively as a substring" when the search text in lower case occurs, as a contiguous
  run of code units, in the text in lower case.
\<close>

definition containsIgnoringCase :: "runtime \<Rightarrow> js_string \<Rightarrow> js_string \<Rightarrow> bool" where
  "containsIgnoringCase rt txt q = sublist (toLowerCase rt q) (toLowerCase rt txt)"


text \<open>
  The empty bucket of a day, and every date of a window, from the date of its start to the
  date of its end.
\<close>

definition zeroBucket :: "int \<Rightarrow> day_bucket" where
  "zeroBucket day = \<lparr>day_date = day, day_completed = 0, day_total = 0\<rparr>"

definition windowDates :: "instant \<Rightarrow> instant \<Rightarrow> int list" where
  "windowDates startDate endDate = [dateKey startDate .. dateKey endDate]"





section \<open>Example data\<close>

text \<open>
  For the examples: ASCII texts as JavaScript strings, and the runtime of a browser in the
  UTC time zone, whose days all have 24 hours and whose local dates are the UTC dates
  (day 0, the first of January 1970, was a Thursday), with \<open>toLowerCase\<close> as it is on
  ASCII texts.
\<close>

definition utf16 :: "string \<Rightarrow> js_string" where
  "utf16 s = map (\<lambda>c. of_nat (of_char c)) s"

definition asciiLower :: "js_string \<Rightarrow> js_string" where
  "asciiLower s = map (\<lambda>u. if 65 \<le> unat u \<and> unat u \<le> 90 then u + 32 else u) s"

definition utcRuntime :: runtime where
  "utcRuntime =
     \<lparr>toLowerCase = asciiLower,
      localMidnight = (\<lambda>now. now - now mod msPerDay),
      plusDays = (\<lambda>d n. d + n * msPerDay),
      weekdayShort = (\<lambda>day.
        [''Thu'', ''Fri'', ''Sat'', ''Sun'', ''Mon'', ''Tue'', ''Wed''] ! nat (day mod 7))\<rparr>"

text \<open>A task and a time entry with default fields.\<close>

definition exampleTask :: "string \<Rightarrow> task" where
  "exampleTask name =
     \<lparr>tid = name, title = utf16 name, description = None, completed = False,
      due_date = None, priority = ''medium'', estimated_time = None, created_at = 0,
      category = None\<rparr>"

definition exampleEntry :: "instant \<Rightarrow> int option \<Rightarrow> time_entry" where
  "exampleEntry started seconds =
     \<lparr>entry_id = ''e'', task_id = ''t'', start_time = started,
      end_time = (case seconds of None \<Rightarrow> None | Some n \<Rightarrow> Some (started + n * 1000)),
      duration = seconds\<rparr>"

section \<open>Properties of the task filter\<close>

lemma filterTasks_as_filter:
  "filterTasks rt tasks q s p =
     filter (\<lambda>t. (trim q = [] \<or> matchesSearch rt q t) \<and>
                 (s = StatusAll \<or> (if s = StatusCompleted then completed t else \<not> completed t)) \<and>
                 (p = PriorityAll \<or> priority t = priorityText p)) tasks"
  by (simp add: filterTasks_def Let_def)

lemma trim_Nil: "trim [] = []"
  by (simp add: trim_def)

text \<open>
  Claim C7. With an empty search text and both filters set to "all", \<open>filterTasks\<close> returns
  the task list as it is; and for every task list, search text, status filter and priority
  filter the result is a subsequence of the input: tasks are dropped, never reordered,
  duplicated or invented.
\<close>

theorem filterTasks_identity_subseq:
  "filterTasks rt tasks [] StatusAll PriorityAll = tasks \<and>
   subseq (filterTasks rt tasks searchQuery statusFilter priorityFilter) tasks"
  by (simp add: filterTasks_as_filter trim_Nil)



text \<open>
  Where lower case is taken code unit by code unit, as it is on ASCII texts, a text
  contains the search text in this sense exactly when one of its segments equals the
  search text up to case.
\<close>

lemma sublist_map_iff:
  "sublist (map f q) (map f hay) = (\<exists>seg. sublist seg hay \<and> map f seg = map f q)"
proof
  assume "sublist (map f q) (map f hay)"
  then obtain ps ss where "map f hay = ps @ map f q @ ss"
    by (auto simp: sublist_def)
  then obtain a r where a: "hay = a @ r" "map f q @ ss = map f r"
    unfolding map_eq_append_conv by blast
  then obtain b c where b: "r = b @ c" "map f q = map f b"
    unfolding append_eq_map_conv by blast
  from a b have "hay = a @ b @ c" "map f b = map f q" by simp_all
  then show "\<exists>seg. sublist seg hay \<and> map f seg = map f q"
    by (auto simp: sublist_def)
next
  assume "\<exists>seg. sublist seg hay \<and> map f seg = map f q"
  then obtain seg ps ss where "hay = ps @ seg @ ss" "map f seg = map f q"
    unfolding sublist_def by blast
  then have "map f hay = map f ps @ map f q @ map f ss" by simp
  then show "sublist (map f q) (map f hay)"
    unfolding sublist_def by blast
qed

lemma containsIgnoringCase_segment:
  assumes "toLowerCase rt = map f"
  shows "containsIgnoringCase rt txt q = (\<exists>seg. sublist seg txt \<and> map f seg = map f q)"
  by (simp add: containsIgnoringCase_def assms sublist_map_iff)



text \<open>A search text of no-break and en spaces only is trimmed to the empty text.\<close>

lemma trim_unicode_space: "trim [160, 8194] = []"
  by (simp add: trim_def isWhiteSpace_def)

section \<open>Properties of the overdue indicator\<close>

lemma find_first_index:
  "x \<in> set xs \<Longrightarrow> P x \<Longrightarrow>
   \<exists>i < length xs. P (xs ! i) \<and> (\<forall>j < i. \<not> P (xs ! j)) \<and> find P xs = Some (xs ! i)"
  by (metis find_None_iff find_Some_iff not_Some_eq)

text \<open>
  Claim C9. For a rendered task (one of the filtered tasks) whose due date lies before the
  current instant, the overdue indicator is the negated completion flag of the first task
  of the whole, unfiltered list that has the same due date, whichever task is rendered;
  so every task with that due date gets the same indicator. The witness shows an
  uncompleted, past-due task that is not marked overdue because a completed task with the
  same due date stands before it.
\<close>

theorem overdueIndicator_first_match:
  assumes "t \<in> set (filterTasks rt tasks q s p)" and "due_date t = Some d" and "d < now"
  shows "(\<exists>i < length tasks.
            due_date (tasks ! i) = Some d \<and>
            (\<forall>j < i. due_date (tasks ! j) \<noteq> Some d) \<and>
            overdueIndicator now tasks t = Some (\<not> completed (tasks ! i))) \<and>
         (\<forall>t'. due_date t' = Some d \<longrightarrow>
            overdueIndicator now tasks t' = overdueIndicator now tasks t)"
proof -
  from assms(1) have "t \<in> set tasks"
    by (simp add: filterTasks_as_filter)
  from find_first_index [of t tasks "\<lambda>x. due_date x = Some d", OF this assms(2)]
  obtain i where i: "i < length tasks" "due_date (tasks ! i) = Some d"
    "\<forall>j < i. due_date (tasks ! j) \<noteq> Some d"
    "find (\<lambda>x. due_date x = Some d) tasks = Some (tasks ! i)"
    by blast
  have "overdueIndicator now tasks t = Some (\<not> completed (tasks ! i))"
    using assms(2,3) i(4) by (simp add: overdueIndicator_def isOverdue_def)
  moreover have "\<forall>t'. due_date t' = Some d \<longrightarrow>
      overdueIndicator now tasks t' = overdueIndicator now tasks t"
    using assms(2) by (simp add: overdueIndicator_def)
  ultimately show ?thesis using i(1-3) by blast
qed

theorem overdueIndicator_first_match_witness:
  "(exampleTask ''B'')\<lparr>due_date := Some 100\<rparr>
     \<in> set (filterTasks utcRuntime
              [(exampleTask ''A'')\<lparr>due_date := Some 100, completed := True\<rparr>,
               (exampleTask ''B'')\<lparr>due_date := Some 100\<rparr>] [] StatusAll PriorityAll) \<and>
   due_date ((exampleTask ''B'')\<lparr>due_date := Some 100\<rparr>) = Some 100 \<and>
   (100 :: int) < 200 \<and>
   \<not> completed ((exampleTask ''B'')\<lparr>due_date := Some 100\<rparr>) \<and>
   overdueIndicator 200
     [(exampleTask ''A'')\<lparr>due_date := Some 100, completed := True\<rparr>,
      (exampleTask ''B'')\<lparr>due_date := Some 100\<rparr>]
     ((exampleTask ''B'')\<lparr>due_date := Some 100\<rparr>) = Some False \<and>
   (\<exists>i < length [(exampleTask ''A'')\<lparr>due_date := Some 100, completed := True\<rparr>,
                 (exampleTask ''B'')\<lparr>due_date := Some 100\<rparr>].
      overdueIndicator 200
        [(exampleTask ''A'')\<lparr>due_date := Some 100, completed := True\<rparr>,
         (exampleTask ''B'')\<lparr>due_date := Some 100\<rparr>]
        ((exampleTask ''B'')\<lparr>due_date := Some 100\<rparr>) =
      Some (\<not> completed
        ([(exampleTask ''A'')\<lparr>due_date := Some 100, completed := True\<rparr>,
          (exampleTask ''B'')\<lparr>due_date := Some 100\<rparr>] ! i)))"
proof -
  have h1: "(exampleTask ''B'')\<lparr>due_date := Some 100\<rparr>
     \<in> set (filterTasks utcRuntime
              [(exampleTask ''A'')\<lparr>due_date := Some 100, completed := True\<rparr>,
               (exampleTask ''B'')\<lparr>due_date := Some 100\<rparr>] [] StatusAll PriorityAll)"
    by (simp add: filterTasks_as_filter trim_Nil)
  have h2: "due_date ((exampleTask ''B'')\<lparr>due_date := Some 100\<rparr>) = Some 100"
    by simp
  have h3: "(100 :: int) < 200"
    by simp
  have e: "overdueIndicator 200
     [(exampleTask ''A'')\<lparr>due_date := Some 100, completed := True\<rparr>,
      (exampleTask ''B'')\<lparr>due_date := Some 100\<rparr>]
     ((exampleTask ''B'')\<lparr>due_date := Some 100\<rparr>) = Some False"
    by (simp add: overdueIndicator_def isOverdue_def)
  have c: "\<not> completed ((exampleTask ''B'')\<lparr>due_date := Some 100\<rparr>)"
    by (simp add: exampleTask_def)
  from overdueIndicator_first_match [OF h1 h2 h3] h1 h2 h3 e c show ?thesis
    by blast
qed

section \<open>Properties of the timer session\<close>

text \<open>
  Claim C5. \<open>startTimer\<close> without a selected task (the empty task id) is rejected: the only
  effect is the destructive toast "Select a task" (the validation error shown to the
  user); no call is sent to the repository, whatever it would have answered, and the
  session state is returned unchanged (not running, counter not reset, no active entry
  recorded).
\<close>

theorem startTimer_no_task:
  assumes "selectedTaskId st = []"
  shows "startTimer now inserted st =
           (st, [],
            [\<lparr>toast_title = ''Select a task'',
              toast_description = ''Please select a task to track time for.'',
              variant = Destructive\<rparr>])"
  using assms by (simp add: startTimer_def)

theorem startTimer_no_task_witness:
  "selectedTaskId \<lparr>selectedTaskId = [], isRunning = False, currentTime = 7,
                    activeEntryId = None\<rparr> = [] \<and>
   startTimer 1000 (Inr ''e1'')
     \<lparr>selectedTaskId = [], isRunning = False, currentTime = 7, activeEntryId = None\<rparr> =
     (\<lparr>selectedTaskId = [], isRunning = False, currentTime = 7, activeEntryId = None\<rparr>, [],
      [\<lparr>toast_title = ''Select a task'',
        toast_description = ''Please select a task to track time for.'',
        variant = Destructive\<rparr>])"
  using startTimer_no_task [of "\<lparr>selectedTaskId = [], isRunning = False, currentTime = 7,
                    activeEntryId = None\<rparr>" 1000 "Inr ''e1''"]
  by simp

text \<open>
  Claim C2, as the code has it. \<open>stopTimer\<close> with no active entry returns at once: no call
  is sent to the repository and the session state is unchanged, but no error is raised
  or shown either: the list of toasts is empty. The counterexample compares this with
  \<open>startTimer\<close> without a task, which does show a destructive toast.
\<close>

theorem stopTimer_idle_silent:
  assumes "activeEntryId st = None"
  shows "stopTimer now updated st = (st, [], [])"
  using assms by (simp add: stopTimer_def)

theorem stopTimer_idle_silent_witness:
  "activeEntryId \<lparr>selectedTaskId = ''t1'', isRunning = False, currentTime = 3,
                   activeEntryId = None\<rparr> = None \<and>
   stopTimer 1000 (Some ''offline'')
     \<lparr>selectedTaskId = ''t1'', isRunning = False, currentTime = 3, activeEntryId = None\<rparr> =
     (\<lparr>selectedTaskId = ''t1'', isRunning = False, currentTime = 3, activeEntryId = None\<rparr>,
      [], [])"
  using stopTimer_idle_silent [of "\<lparr>selectedTaskId = ''t1'', isRunning = False,
     currentTime = 3, activeEntryId = None\<rparr>" 1000 "Some ''offline''"]
  by simp

theorem stopTimer_idle_no_error_counterexample:
  "snd (snd (stopTimer 5000 None
     \<lparr>selectedTaskId = ''t1'', isRunning = False, currentTime = 0, activeEntryId = None\<rparr>))
   = [] \<and>
   snd (snd (startTimer 5000 (Inr ''e1'')
     \<lparr>selectedTaskId = [], isRunning = False, currentTime = 0, activeEntryId = None\<rparr>))
   = [\<lparr>toast_title = ''Select a task'',
       toast_description = ''Please select a task to track time for.'',
       variant = Destructive\<rparr>]"
  by (simp add: stopTimer_def startTimer_def)

section \<open>Properties of the dashboard statistics\<close>

lemma length_filter_completed_split:
  "length (filter (\<lambda>t. \<not> completed t) ts) = length ts - length (filter completed ts)"
  using sum_length_filter_compl [of completed ts] by simp

text \<open>
  Claim C3, as the code has it. \<open>calculateStats\<close> counts a task as overdue when it is not
  completed and its due date lies before the start of the current day (local midnight),
  not before the current instant. So for three tasks, two of them completed and the third
  one not completed and due at \<open>d\<close>, the statistics are 3 tasks in total, 2 completed,
  and 1 overdue if \<open>d\<close> is strictly earlier than the start of the current day, 0 overdue
  otherwise. The counterexample is a task due at 08:00 today seen at 12:00, in a browser
  in the UTC zone: it is due before the current instant and not counted as overdue.
\<close>

theorem calculateStats_three_tasks:
  assumes "length ts = 3" and "length (filter completed ts) = 2"
    and "\<forall>t \<in> set ts. \<not> completed t \<longrightarrow> due_date t = Some d"
  shows "totalTasks (calculateStats rt now (Some ts)) = 3 \<and>
         completedTasks (calculateStats rt now (Some ts)) = 2 \<and>
         overdueTasks (calculateStats rt now (Some ts)) =
           (if d < localMidnight rt now then 1 else 0)"
proof -
  have "filter (\<lambda>t. case due_date t of None \<Rightarrow> False
                    | Some dueDate \<Rightarrow>
                        if completed t then False else dueDate < localMidnight rt now) ts
        = (if d < localMidnight rt now then filter (\<lambda>t. \<not> completed t) ts else [])"
    using assms(3) by (auto intro!: filter_cong simp: filter_empty_conv split: option.splits)
  then have "overdueTasks (calculateStats rt now (Some ts)) =
           (if d < localMidnight rt now then 1 else 0)"
    using assms(1,2) by (simp add: calculateStats_def Let_def length_filter_completed_split)
  then show ?thesis
    using assms(1,2) by (simp add: calculateStats_def Let_def)
qed

theorem calculateStats_three_tasks_witness:
  "calculateStats utcRuntime (2 * msPerDay + 7)
     (Some [(exampleTask ''a'')\<lparr>completed := True\<rparr>,
            (exampleTask ''b'')\<lparr>completed := True, due_date := Some 5\<rparr>,
            (exampleTask ''c'')\<lparr>due_date := Some (2 * msPerDay - 1)\<rparr>]) =
     \<lparr>totalTasks = 3, completedTasks = 2, todayTasks = 0, overdueTasks = 1\<rparr> \<and>
   overdueTasks (calculateStats utcRuntime (2 * msPerDay + 7)
     (Some [(exampleTask ''a'')\<lparr>completed := True\<rparr>,
            (exampleTask ''b'')\<lparr>completed := True, due_date := Some 5\<rparr>,
            (exampleTask ''c'')\<lparr>due_date := Some (2 * msPerDay)\<rparr>])) = 0"
proof -
  let ?ts = "\<lambda>d. [(exampleTask ''a'')\<lparr>completed := True\<rparr>,
           (exampleTask ''b'')\<lparr>completed := True, due_date := Some 5\<rparr>,
           (exampleTask ''c'')\<lparr>due_date := Some d\<rparr>]"
  have h1: "length (?ts d) = 3" for d by simp
  have h2: "length (filter completed (?ts d)) = 2" for d by (simp add: exampleTask_def)
  have h3: "\<forall>t \<in> set (?ts d). \<not> completed t \<longrightarrow> due_date t = Some d" for d
    by (simp add: exampleTask_def)
  have m: "localMidnight utcRuntime (2 * msPerDay + 7) = 2 * msPerDay"
    by (simp add: utcRuntime_def msPerDay_def)
  have t: "todayTasks (calculateStats utcRuntime (2 * msPerDay + 7)
             (Some (?ts (2 * msPerDay - 1)))) = 0"
    by (simp add: calculateStats_def Let_def exampleTask_def m) (simp add: msPerDay_def)
  from calculateStats_three_tasks [where rt = utcRuntime and now = "2 * msPerDay + 7"
      and d = "2 * msPerDay - 1" and ts = "?ts (2 * msPerDay - 1)", OF h1 h2 h3]
    calculateStats_three_tasks [where rt = utcRuntime and now = "2 * msPerDay + 7"
      and d = "2 * msPerDay" and ts = "?ts (2 * msPerDay)", OF h1 h2 h3] t
  show ?thesis
    by (cases "calculateStats utcRuntime (2 * msPerDay + 7) (Some (?ts (2 * msPerDay - 1)))")
       (simp add: m)
qed

theorem calculateStats_due_today_counterexample:
  "(28800000 :: int) < 43200000 \<and>
   \<not> completed ((exampleTask ''c'')\<lparr>due_date := Some 28800000\<rparr>) \<and>
   calculateStats utcRuntime 43200000
     (Some [(exampleTask ''a'')\<lparr>completed := True\<rparr>,
            (exampleTask ''b'')\<lparr>completed := True\<rparr>,
            (exampleTask ''c'')\<lparr>due_date := Some 28800000\<rparr>]) =
     \<lparr>totalTasks = 3, completedTasks = 2, todayTasks = 1, overdueTasks = 0\<rparr>"
  by (simp add: calculateStats_def Let_def exampleTask_def utcRuntime_def msPerDay_def)

section \<open>Properties of the table of days and of the double precision operations\<close>

lemma update_fresh: "k \<notin> fst ` set al \<Longrightarrow> AList.update k v al = al @ [(k, v)]"
  by (induction al) auto

lemma set_update_subset: "set (AList.update k v al) \<subseteq> insert (k, v) (set al)"
  by (induction al) auto

lemma initDailyData_step:
  "d \<le> endDate \<Longrightarrow>
   initDailyData rt d endDate m =
     initDailyData rt (plusDays rt d 1) endDate (AList.update (dateKey d) (zeroBucket (dateKey d)) m)"
  by (subst initDailyData.simps) (simp add: zeroBucket_def)

lemma initDailyData_stop: "\<not> d \<le> endDate \<Longrightarrow> initDailyData rt d endDate m = Some m"
  by (subst initDailyData.simps) simp

lemma initDailyData_zero:
  assumes "\<forall>d. d < plusDays rt d 1"
    and "\<forall>p \<in> set m. snd p = zeroBucket (fst p)"
  shows "\<exists>m'. initDailyData rt d endDate m = Some m' \<and>
              (\<forall>p \<in> set m'. snd p = zeroBucket (fst p))"
  using assms(2)
proof (induction "nat (endDate - d + 1)" arbitrary: d m rule: less_induct)
  case less
  show ?case
  proof (cases "d \<le> endDate")
    case False
    with less.prems show ?thesis by (simp add: initDailyData_stop)
  next
    case True
    let ?m = "AList.update (dateKey d) (zeroBucket (dateKey d)) m"
    have "d < plusDays rt d 1" using assms(1) by simp
    with True have "nat (endDate - plusDays rt d 1 + 1) < nat (endDate - d + 1)" by simp
    moreover have "\<forall>p \<in> set ?m. snd p = zeroBucket (fst p)"
      using less.prems set_update_subset [of "dateKey d" "zeroBucket (dateKey d)" m] by auto
    ultimately obtain m' where "initDailyData rt (plusDays rt d 1) endDate ?m = Some m'"
      "\<forall>p \<in> set m'. snd p = zeroBucket (fst p)"
      using less.hyps by blast
    with True show ?thesis by (simp add: initDailyData_step)
  qed
qed

lemma initDailyData_24h:
  assumes "\<forall>d. plusDays rt d 1 = d + msPerDay"
    and "\<forall>k \<in> fst ` set m. k < dateKey d"
  shows "initDailyData rt d endDate m =
           Some (m @ map (\<lambda>k. (k, zeroBucket k))
                   [dateKey d .. dateKey d + (endDate - d) div msPerDay])"
  using assms(2)
proof (induction "nat (endDate - d + 1)" arbitrary: d m rule: less_induct)
  case less
  show ?case
  proof (cases "d \<le> endDate")
    case False
    then have "(endDate - d) div msPerDay < 0"
      by (simp add: msPerDay_def)
    with False show ?thesis
      by (simp add: initDailyData_stop)
  next
    case True
    let ?m = "AList.update (dateKey d) (zeroBucket (dateKey d)) m"
    let ?d = "plusDays rt d 1"
    have d': "?d = d + msPerDay" using assms(1) by simp
    have k': "dateKey ?d = dateKey d + 1"
      by (simp add: d' dateKey_def msPerDay_def)
    have "dateKey d \<notin> fst ` set m"
      using less.prems by auto
    then have m: "?m = m @ [(dateKey d, zeroBucket (dateKey d))]"
      by (rule update_fresh)
    have keys: "\<forall>k \<in> fst ` set ?m. k < dateKey ?d"
      using less.prems by (auto simp: m k')
    have "nat (endDate - ?d + 1) < nat (endDate - d + 1)"
      using True by (simp add: d' msPerDay_def)
    from less.hyps [OF this keys]
    have ih: "initDailyData rt ?d endDate ?m =
                Some (?m @ map (\<lambda>k. (k, zeroBucket k))
                        [dateKey ?d .. dateKey ?d + (endDate - ?d) div msPerDay])" .
    have "(endDate - ?d) div msPerDay = (endDate - d) div msPerDay - 1"
      by (simp add: d' msPerDay_def)
    then have w1: "[dateKey ?d .. dateKey ?d + (endDate - ?d) div msPerDay] =
        [dateKey d + 1 .. dateKey d + (endDate - d) div msPerDay]"
      by (simp add: k')
    have "0 \<le> (endDate - d) div msPerDay"
      using True by (simp add: msPerDay_def)
    then have w: "[dateKey d .. dateKey d + (endDate - d) div msPerDay] =
        dateKey d # [dateKey d + 1 .. dateKey d + (endDate - d) div msPerDay]"
      by (simp add: upto_rec1)
    show ?thesis
      using True by (simp only: initDailyData_step ih w w1) (simp add: m)
  qed
qed

lemma last_date_reached:
  assumes "startDate mod msPerDay \<le> endDate mod msPerDay"
  shows "dateKey startDate + (endDate - startDate) div msPerDay = dateKey endDate"
proof -
  define a where "a = startDate mod msPerDay"
  define b where "b = endDate mod msPerDay"
  have s: "startDate = dateKey startDate * msPerDay + a"
    by (simp add: a_def dateKey_def)
  have e: "endDate = dateKey endDate * msPerDay + b"
    by (simp add: b_def dateKey_def)
  have ab: "0 \<le> b - a" "b - a < msPerDay"
    using assms by (simp_all add: a_def b_def msPerDay_def) 
  have "endDate - startDate = (dateKey endDate - dateKey startDate) * msPerDay + (b - a)"
    by (subst e, subst s) (simp add: algebra_simps)
  then have "(endDate - startDate) div msPerDay = dateKey endDate - dateKey startDate"
    using ab by (simp add: div_pos_pos_trivial msPerDay_def)
  then show ?thesis by simp
qed

lemma initDailyData_window:
  assumes "\<forall>d. plusDays rt d 1 = d + msPerDay"
    and "startDate mod msPerDay \<le> endDate mod msPerDay"
  shows "initDailyData rt startDate endDate [] =
           Some (map (\<lambda>k. (k, zeroBucket k)) (windowDates startDate endDate))"
  using initDailyData_24h [OF assms(1), of "[]" startDate endDate]
  by (simp add: windowDates_def last_date_reached [OF assms(2)])







lemma toDouble_0: "toDouble 0 = 0"
  by (simp add: toDouble_def)



lemma Math_round_0: "Math_round 0 = 0"
proof -
  have "\<lfloor>(1 :: rat) / 2\<rfloor> = 0"
    by (simp add: floor_eq_iff)
  then show ?thesis by (simp add: Math_round_def)
qed

lemma weeklyStatsOf_empty:
  "weeklyStatsOf [] [] =
     \<lparr>tasksCompleted = 0, timeTracked = 0, averageTimePerTask = 0, completionRate = 0\<rparr>"
  by (simp add: weeklyStatsOf_def timeTrackedOf_def divide_js_def toDouble_0 Math_round_0)

lemma aggregate_SomeD:
  assumes "aggregate rt startDate endDate weekStart tasks timeEntries = Some snap"
  shows "\<exists>dailyData. dailyDataOf rt startDate endDate tasks = Some dailyData \<and>
           dailyCompletion snap =
             map (\<lambda>day. \<lparr>dc_date = weekdayShort rt (day_date day),
                          dc_completed = day_completed day, dc_total = day_total day\<rparr>)
               (sliceLast7 (map snd dailyData))"
    and "categoryBreakdown snap = map snd (categoryDataOf tasks)"
    and "timeSpent snap =
           map (\<lambda>(date, minutes). \<lparr>tp_date = weekdayShort rt date, tp_minutes = minutes\<rparr>)
             (sliceLast7 (timeDataOf timeEntries))"
    and "weeklyStats snap =
           weeklyStatsOf (weekTasksOf weekStart tasks) (weekTimeEntriesOf weekStart timeEntries)"
  using assms by (auto simp: aggregate_def split: option.splits)

lemma aggregate_returns:
  assumes "\<forall>d. d < plusDays rt d 1"
  shows "\<exists>snap. aggregate rt startDate endDate weekStart tasks timeEntries = Some snap"
proof -
  obtain m where "initDailyData rt startDate endDate [] = Some m"
    using initDailyData_zero [OF assms, of "[]" startDate endDate] by auto
  then show ?thesis
    by (simp add: aggregate_def dailyDataOf_def)
qed

lemma length_sliceLast7: "length (sliceLast7 xs) \<le> 7"
  by (simp add: sliceLast7_def)

lemma set_sliceLast7: "set (sliceLast7 xs) \<subseteq> set xs"
  by (simp add: sliceLast7_def set_drop_subset)

lemma aggregate_SomeE:
  assumes "aggregate rt startDate endDate weekStart tasks timeEntries = Some snap"
  obtains dailyData where "dailyDataOf rt startDate endDate tasks = Some dailyData"
    and "dailyCompletion snap =
             map (\<lambda>day. \<lparr>dc_date = weekdayShort rt (day_date day),
                          dc_completed = day_completed day, dc_total = day_total day\<rparr>)
               (sliceLast7 (map snd dailyData))"
  using assms by (auto simp: aggregate_def split: option.splits)

lemma empty_table_zero:
  assumes "aggregate rt startDate endDate weekStart tasks timeEntries = Some snap"
    and "rowsOf tasks = []" and "\<forall>d. d < plusDays rt d 1"
  shows "length (dailyCompletion snap) \<le> 7"
    and "\<forall>b \<in> set (dailyCompletion snap). dc_completed b = 0 \<and> dc_total b = 0"
proof -
  from assms(1) obtain dailyData
    where dd: "dailyDataOf rt startDate endDate tasks = Some dailyData"
      and dc: "dailyCompletion snap =
             map (\<lambda>day. \<lparr>dc_date = weekdayShort rt (day_date day),
                          dc_completed = day_completed day, dc_total = day_total day\<rparr>)
               (sliceLast7 (map snd dailyData))"
    by (rule aggregate_SomeE)
  from dd assms(2) have init: "initDailyData rt startDate endDate [] = Some dailyData"
    by (simp add: dailyDataOf_def)
  have "\<exists>m'. initDailyData rt startDate endDate [] = Some m' \<and>
              (\<forall>p \<in> set m'. snd p = zeroBucket (fst p))"
    by (rule initDailyData_zero [OF assms(3)]) simp
  then obtain m' where "initDailyData rt startDate endDate [] = Some m'"
    and z: "\<forall>p \<in> set m'. snd p = zeroBucket (fst p)"
    by blast
  with init have "m' = dailyData" by simp
  with z have zero: "\<forall>p \<in> set dailyData. snd p = zeroBucket (fst p)"
    by simp
  show "length (dailyCompletion snap) \<le> 7"
    by (simp add: dc length_sliceLast7)
  show "\<forall>b \<in> set (dailyCompletion snap). dc_completed b = 0 \<and> dc_total b = 0"
  proof
    fix b assume "b \<in> set (dailyCompletion snap)"
    then have "b \<in> (\<lambda>day. \<lparr>dc_date = weekdayShort rt (day_date day),
                    dc_completed = day_completed day, dc_total = day_total day\<rparr>) `
                 set (sliceLast7 (map snd dailyData))"
      by (simp only: dc set_map)
    then obtain day where day: "day \<in> set (sliceLast7 (map snd dailyData))"
      and b: "b = \<lparr>dc_date = weekdayShort rt (day_date day),
                    dc_completed = day_completed day, dc_total = day_total day\<rparr>"
      by (rule imageE)
    from day have "day \<in> set (map snd dailyData)"
      by (rule subsetD [OF set_sliceLast7])
    then obtain p where "p \<in> set dailyData" "day = snd p" by auto
    with zero have "day = zeroBucket (fst p)" by simp
    with b show "dc_completed b = 0 \<and> dc_total b = 0"
      by (simp add: zeroBucket_def)
  qed
qed

lemma empty_table_window:
  assumes "aggregate rt startDate endDate weekStart tasks timeEntries = Some snap"
    and "rowsOf tasks = []"
    and "\<forall>d. plusDays rt d 1 = d + msPerDay"
    and "startDate mod msPerDay \<le> endDate mod msPerDay"
  shows "dailyDataOf rt startDate endDate tasks =
           Some (map (\<lambda>day. (day, zeroBucket day)) (windowDates startDate endDate))"
    and "dailyCompletion snap =
           map (\<lambda>day. \<lparr>dc_date = weekdayShort rt day, dc_completed = 0, dc_total = 0\<rparr>)
             (sliceLast7 (windowDates startDate endDate))"
proof -
  from assms(1) obtain dailyData
    where dd: "dailyDataOf rt startDate endDate tasks = Some dailyData"
      and dc: "dailyCompletion snap =
             map (\<lambda>day. \<lparr>dc_date = weekdayShort rt (day_date day),
                          dc_completed = day_completed day, dc_total = day_total day\<rparr>)
               (sliceLast7 (map snd dailyData))"
    by (rule aggregate_SomeE)
  have w: "dailyDataOf rt startDate endDate tasks =
           Some (map (\<lambda>day. (day, zeroBucket day)) (windowDates startDate endDate))"
    using assms(2) by (simp add: dailyDataOf_def initDailyData_window [OF assms(3,4)])
  with dd have d: "dailyData = map (\<lambda>day. (day, zeroBucket day)) (windowDates startDate endDate)"
    by simp
  have "sliceLast7 (map snd dailyData) =
          map zeroBucket (sliceLast7 (windowDates startDate endDate))"
    by (simp add: d sliceLast7_def drop_map comp_def)
  then show "dailyCompletion snap =
           map (\<lambda>day. \<lparr>dc_date = weekdayShort rt day, dc_completed = 0, dc_total = 0\<rparr>)
             (sliceLast7 (windowDates startDate endDate))"
    by (simp add: dc comp_def zeroBucket_def)
  show "dailyDataOf rt startDate endDate tasks =
           Some (map (\<lambda>day. (day, zeroBucket day)) (windowDates startDate endDate))"
    by (rule w)
qed

text \<open>
  Claim C1, as the code has it. For every window, with no task and no time entry (empty or
  null answers), \<open>aggregate\<close> returns a snapshot (given only that the runtime's next day is
  later than the day) whose daily completion series holds at most seven buckets, each with
  completed = 0 and total = 0, whose category histogram is empty and whose weekly
  statistics are all zero; and \<open>fetchAnalytics\<close> on empty tables returns such a snapshot
  and no error. Where the days of the runtime have 24 hours and the time of day of the end
  of the window is not earlier than that of its start, the table of days holds one such
  bucket for every date of the window and the series is the last seven of them, labelled
  by week day. Nothing is stated here about the time series.
\<close>

theorem aggregate_empty:
  assumes "rowsOf tasks = []" and "rowsOf timeEntries = []"
    and "\<forall>d. d < plusDays rt d 1"
  shows "(\<exists>snap. aggregate rt startDate endDate weekStart tasks timeEntries = Some snap \<and>
            length (dailyCompletion snap) \<le> 7 \<and>
            (\<forall>b \<in> set (dailyCompletion snap). dc_completed b = 0 \<and> dc_total b = 0) \<and>
            categoryBreakdown snap = [] \<and>
            weeklyStats snap =
              \<lparr>tasksCompleted = 0, timeTracked = 0, averageTimePerTask = 0,
               completionRate = 0\<rparr> \<and>
            ((\<forall>d. plusDays rt d 1 = d + msPerDay) \<and>
             startDate mod msPerDay \<le> endDate mod msPerDay \<longrightarrow>
               dailyDataOf rt startDate endDate tasks =
                 Some (map (\<lambda>day. (day, zeroBucket day)) (windowDates startDate endDate)) \<and>
               dailyCompletion snap =
                 map (\<lambda>day. \<lparr>dc_date = weekdayShort rt day, dc_completed = 0, dc_total = 0\<rparr>)
                   (sliceLast7 (windowDates startDate endDate)))) \<and>
         (\<exists>snap. fetchAnalytics rt clock1 clock2 clock3 (Inr []) (Inr []) = Some (Inr snap) \<and>
            aggregate rt (plusDays rt clock2 (- 30)) clock1 (plusDays rt clock3 (- 7))
              (Some []) (Some []) = Some snap)"
proof (rule conjI)
  obtain snap where snap: "aggregate rt startDate endDate weekStart tasks timeEntries = Some snap"
    using aggregate_returns [OF assms(3), of startDate endDate weekStart tasks timeEntries]
    by (elim exE)
  have 3: "categoryBreakdown snap = []"
    using aggregate_SomeD(2) [OF snap] assms(1) by (simp add: categoryDataOf_def)
  have 4: "weeklyStats snap =
              \<lparr>tasksCompleted = 0, timeTracked = 0, averageTimePerTask = 0,
               completionRate = 0\<rparr>"
    using aggregate_SomeD(4) [OF snap] assms(1,2)
    by (simp add: weekTasksOf_def weekTimeEntriesOf_def weeklyStatsOf_empty)
  show "\<exists>snap. aggregate rt startDate endDate weekStart tasks timeEntries = Some snap \<and>
            length (dailyCompletion snap) \<le> 7 \<and>
            (\<forall>b \<in> set (dailyCompletion snap). dc_completed b = 0 \<and> dc_total b = 0) \<and>
            categoryBreakdown snap = [] \<and>
            weeklyStats snap =
              \<lparr>tasksCompleted = 0, timeTracked = 0, averageTimePerTask = 0,
               completionRate = 0\<rparr> \<and>
            ((\<forall>d. plusDays rt d 1 = d + msPerDay) \<and>
             startDate mod msPerDay \<le> endDate mod msPerDay \<longrightarrow>
               dailyDataOf rt startDate endDate tasks =
                 Some (map (\<lambda>day. (day, zeroBucket day)) (windowDates startDate endDate)) \<and>
               dailyCompletion snap =
                 map (\<lambda>day. \<lparr>dc_date = weekdayShort rt day, dc_completed = 0, dc_total = 0\<rparr>)
                   (sliceLast7 (windowDates startDate endDate)))"
  proof (intro exI [of _ snap] conjI impI)
    show "aggregate rt startDate endDate weekStart tasks timeEntries = Some snap"
      by (rule snap)
    show "length (dailyCompletion snap) \<le> 7"
      by (rule empty_table_zero(1) [OF snap assms(1,3)])
    show "\<forall>b \<in> set (dailyCompletion snap). dc_completed b = 0 \<and> dc_total b = 0"
      by (rule empty_table_zero(2) [OF snap assms(1,3)])
    show "categoryBreakdown snap = []" by (rule 3)
    show "weeklyStats snap =
              \<lparr>tasksCompleted = 0, timeTracked = 0, averageTimePerTask = 0,
               completionRate = 0\<rparr>" by (rule 4)
  next
    assume a: "(\<forall>d. plusDays rt d 1 = d + msPerDay) \<and>
             startDate mod msPerDay \<le> endDate mod msPerDay"
    show "dailyDataOf rt startDate endDate tasks =
                 Some (map (\<lambda>day. (day, zeroBucket day)) (windowDates startDate endDate))"
      by (rule empty_table_window(1) [OF snap assms(1) conjunct1 [OF a] conjunct2 [OF a]])
  next
    assume a: "(\<forall>d. plusDays rt d 1 = d + msPerDay) \<and>
             startDate mod msPerDay \<le> endDate mod msPerDay"
    show "dailyCompletion snap =
                 map (\<lambda>day. \<lparr>dc_date = weekdayShort rt day, dc_completed = 0, dc_total = 0\<rparr>)
                   (sliceLast7 (windowDates startDate endDate))"
      by (rule empty_table_window(2) [OF snap assms(1) conjunct1 [OF a] conjunct2 [OF a]])
  qed
next
  obtain snap' where snap': "aggregate rt (plusDays rt clock2 (- 30)) clock1
      (plusDays rt clock3 (- 7)) (Some []) (Some []) = Some snap'"
    using aggregate_returns [OF assms(3), of "plusDays rt clock2 (- 30)" clock1
        "plusDays rt clock3 (- 7)" "Some []" "Some []"]
    by (elim exE)
  then have "fetchAnalytics rt clock1 clock2 clock3 (Inr []) (Inr []) = Some (Inr snap')"
    by (simp add: fetchAnalytics_def Let_def tasksQuery_def timeEntriesQuery_def)
  with snap' show "\<exists>snap. fetchAnalytics rt clock1 clock2 clock3 (Inr []) (Inr []) = Some (Inr snap) \<and>
            aggregate rt (plusDays rt clock2 (- 30)) clock1 (plusDays rt clock3 (- 7))
              (Some []) (Some []) = Some snap"
    by (intro exI [of _ snap'] conjI)
qed

lemma utcRuntime_days:
  "\<forall>d. plusDays utcRuntime d 1 = d + msPerDay" "\<forall>d. d < plusDays utcRuntime d 1"
  by (simp_all add: utcRuntime_def msPerDay_def)

lemma aggregate_24h:
  assumes "\<forall>d. plusDays rt d 1 = d + msPerDay"
    and "startDate mod msPerDay \<le> endDate mod msPerDay"
  shows "aggregate rt startDate endDate weekStart tasks timeEntries =
     Some
       \<lparr>dailyCompletion =
          map (\<lambda>day. \<lparr>dc_date = weekdayShort rt (day_date day),
                       dc_completed = day_completed day,
                       dc_total = day_total day\<rparr>)
            (sliceLast7 (map snd (fold countTask (rowsOf tasks)
               (map (\<lambda>day. (day, zeroBucket day)) (windowDates startDate endDate))))),
        categoryBreakdown = map snd (categoryDataOf tasks),
        timeSpent =
          map (\<lambda>(date, minutes). \<lparr>tp_date = weekdayShort rt date, tp_minutes = minutes\<rparr>)
            (sliceLast7 (timeDataOf timeEntries)),
        weeklyStats =
          weeklyStatsOf (weekTasksOf weekStart tasks)
            (weekTimeEntriesOf weekStart timeEntries)\<rparr>"
  by (simp add: aggregate_def dailyDataOf_def initDailyData_window [OF assms])

lemma windowDates_example:
  "sliceLast7 (windowDates 0 (30 * msPerDay)) = [24, 25, 26, 27, 28, 29, 30]"
  by code_simp

theorem aggregate_empty_witness:
  "rowsOf (Some ([] :: task list)) = [] \<and> rowsOf (None :: time_entry list option) = [] \<and>
   (\<forall>d. d < plusDays utcRuntime d 1) \<and>
   aggregate utcRuntime 0 (30 * msPerDay) (23 * msPerDay) (Some []) None =
     Some
      \<lparr>dailyCompletion =
         map (\<lambda>day. \<lparr>dc_date = weekdayShort utcRuntime day, dc_completed = 0, dc_total = 0\<rparr>)
           [24, 25, 26, 27, 28, 29, 30],
       categoryBreakdown = [],
       timeSpent = [],
       weeklyStats =
         \<lparr>tasksCompleted = 0, timeTracked = 0, averageTimePerTask = 0,
          completionRate = 0\<rparr>\<rparr>"
proof -
  have h1: "rowsOf (Some ([] :: task list)) = []"
    by (simp add: rowsOf_def)
  have h2: "rowsOf (None :: time_entry list option) = []"
    by (simp add: rowsOf_def)
  have al: "(0 :: int) mod msPerDay \<le> (30 * msPerDay) mod msPerDay"
    by simp
  from conjunct1 [OF aggregate_empty [OF h1 h2 utcRuntime_days(2),
      of 0 "30 * msPerDay" "23 * msPerDay"]]
  obtain snap where s:
    "aggregate utcRuntime 0 (30 * msPerDay) (23 * msPerDay) (Some []) None = Some snap \<and>
     length (dailyCompletion snap) \<le> 7 \<and>
     (\<forall>b \<in> set (dailyCompletion snap). dc_completed b = 0 \<and> dc_total b = 0) \<and>
     categoryBreakdown snap = [] \<and>
     weeklyStats snap =
       \<lparr>tasksCompleted = 0, timeTracked = 0, averageTimePerTask = 0, completionRate = 0\<rparr> \<and>
     ((\<forall>d. plusDays utcRuntime d 1 = d + msPerDay) \<and>
      (0 :: int) mod msPerDay \<le> (30 * msPerDay) mod msPerDay \<longrightarrow>
        dailyDataOf utcRuntime 0 (30 * msPerDay) (Some []) =
          Some (map (\<lambda>day. (day, zeroBucket day)) (windowDates 0 (30 * msPerDay))) \<and>
        dailyCompletion snap =
          map (\<lambda>day. \<lparr>dc_date = weekdayShort utcRuntime day, dc_completed = 0,
                       dc_total = 0\<rparr>)
            (sliceLast7 (windowDates 0 (30 * msPerDay))))"
    by (elim exE)
  note snap = s [THEN conjunct1]
  note cb = s [THEN conjunct2, THEN conjunct2, THEN conjunct2, THEN conjunct1]
  note ws = s [THEN conjunct2, THEN conjunct2, THEN conjunct2, THEN conjunct2, THEN conjunct1]
  note w = s [THEN conjunct2, THEN conjunct2, THEN conjunct2, THEN conjunct2, THEN conjunct2]
  from w [rule_format, OF conjI [OF utcRuntime_days(1) al]]
  have dc: "dailyCompletion snap =
              map (\<lambda>day. \<lparr>dc_date = weekdayShort utcRuntime day, dc_completed = 0,
                           dc_total = 0\<rparr>) [24, 25, 26, 27, 28, 29, 30]"
    by (simp only: windowDates_example)
  have ts: "timeSpent snap = []"
    using aggregate_SomeD(3) [OF snap] by (simp add: timeDataOf_def rowsOf_def sliceLast7_def)
  from snap cb ws dc ts have "aggregate utcRuntime 0 (30 * msPerDay) (23 * msPerDay) (Some []) None =
     Some
      \<lparr>dailyCompletion =
         map (\<lambda>day. \<lparr>dc_date = weekdayShort utcRuntime day, dc_completed = 0, dc_total = 0\<rparr>)
           [24, 25, 26, 27, 28, 29, 30],
       categoryBreakdown = [],
       timeSpent = [],
       weeklyStats =
         \<lparr>tasksCompleted = 0, timeTracked = 0, averageTimePerTask = 0,
          completionRate = 0\<rparr>\<rparr>"
    by (cases snap) simp
  with h1 h2 utcRuntime_days(2) show ?thesis
    by (intro conjI)
qed

text \<open>
  On a window of 31 dates the table of days holds 31 buckets and the snapshot seven of
  them, and the time series is empty. When the start of the window is read from the clock
  one millisecond after its end, the loop stops one step early and the last date of the
  window has no bucket.
\<close>

theorem aggregate_empty_counterexample:
  "map_option length (dailyDataOf utcRuntime 0 (30 * msPerDay) (Some [])) = Some 31 \<and>
   map_option (\<lambda>snap. length (dailyCompletion snap))
     (aggregate utcRuntime 0 (30 * msPerDay) (23 * msPerDay) (Some []) (Some [])) = Some 7 \<and>
   map_option timeSpent
     (aggregate utcRuntime 0 (30 * msPerDay) (23 * msPerDay) (Some []) (Some [])) = Some [] \<and>
   map_option (map fst) (dailyDataOf utcRuntime 1 (30 * msPerDay) (Some [])) = Some [0 .. 29] \<and>
   windowDates 1 (30 * msPerDay) = [0 .. 30]"
proof -
  have al: "(0 :: int) mod msPerDay \<le> (30 * msPerDay) mod msPerDay"
    by simp
  have n: "length (windowDates 0 (30 * msPerDay)) = 31"
    by (simp add: windowDates_def dateKey_def msPerDay_def)
  have 1: "map_option length (dailyDataOf utcRuntime 0 (30 * msPerDay) (Some [])) = Some 31"
    by (simp add: dailyDataOf_def initDailyData_window [OF utcRuntime_days(1) al] rowsOf_def n)
  have 2: "map_option (\<lambda>snap. length (dailyCompletion snap))
     (aggregate utcRuntime 0 (30 * msPerDay) (23 * msPerDay) (Some []) (Some [])) = Some 7"
    by (simp add: aggregate_24h [OF utcRuntime_days(1) al] rowsOf_def sliceLast7_def n)
  have 3: "map_option timeSpent
     (aggregate utcRuntime 0 (30 * msPerDay) (23 * msPerDay) (Some []) (Some [])) = Some []"
    by (simp add: aggregate_24h [OF utcRuntime_days(1) al] rowsOf_def sliceLast7_def
          timeDataOf_def)
  have "initDailyData utcRuntime 1 (30 * msPerDay) [] =
      Some ([] @ map (\<lambda>k. (k, zeroBucket k))
                   [dateKey 1 .. dateKey 1 + (30 * msPerDay - 1) div msPerDay])"
    by (rule initDailyData_24h [OF utcRuntime_days(1)]) simp
  moreover have "dateKey 1 = 0" and "(30 * msPerDay - 1) div msPerDay = 29"
    by (simp_all add: dateKey_def msPerDay_def)
  ultimately have 4: "map_option (map fst) (dailyDataOf utcRuntime 1 (30 * msPerDay) (Some [])) =
      Some [0 .. 29]"
    by (simp add: dailyDataOf_def rowsOf_def comp_def)
  have 5: "windowDates 1 (30 * msPerDay) = [0 .. 30]"
    by (simp add: windowDates_def dateKey_def msPerDay_def)
  from 1 2 3 4 5 show ?thesis by (intro conjI)
qed

section \<open>Properties of the category histogram\<close>











section \<open>Properties of the time series\<close>

lemma map_of_timeData:
  "map_of (fold addEntry es []) day =
     (if \<exists>entry \<in> set es. dateKey (start_time entry) = day
      then Some (sum_list (map (\<lambda>entry. Math_round (divide_js (of_int (durationOrZero entry)) 60))
                   (filter (\<lambda>entry. dateKey (start_time entry) = day) es)))
      else None)"
proof (induction es arbitrary: day rule: rev_induct)
  case Nil
  show ?case by simp
next
  case (snoc entry es)
  show ?case
  proof (cases "dateKey (start_time entry) = day")
    case True
    with snoc [of day] show ?thesis
      by (auto simp: addEntry_def Let_def update_conv' split: option.splits)
  next
    case False
    with snoc [of day] show ?thesis
      by (auto simp: addEntry_def Let_def update_conv' split: option.splits)
  qed
qed

lemma timeEntriesQuery_closed:
  "entry \<in> set (timeEntriesQuery startDate table) \<Longrightarrow> duration entry \<noteq> None"
  by (simp add: timeEntriesQuery_def)

text \<open>
  Claim C4. The time series is built from the entries the query returns, which have a
  duration; each adds its minutes, rounded, to the day of its start, and two entries of
  600 and 900 seconds on one day give 25 minutes. But the series displayed is not the
  trailing seven days of the window: it is the last seven days that have an entry, in the
  order of the answer of the query. Below, the only day with entries is day 10 of a window
  whose trailing seven days are the days 24 to 30 (the days of the daily completion
  series): the series displayed is that one day.
\<close>

lemma sliceLast7_map: "sliceLast7 (map f xs) = map f (sliceLast7 xs)"
  by (simp add: sliceLast7_def drop_map)

theorem timeSpent_not_trailing_days:
  "fetchAnalytics utcRuntime (30 * msPerDay) (30 * msPerDay) (30 * msPerDay) (Inr [])
     (Inr [exampleEntry (10 * msPerDay + 3600000) (Some 600),
           exampleEntry (10 * msPerDay + 7200000) (Some 900),
           exampleEntry (29 * msPerDay) None]) =
   Some (Inr
      \<lparr>dailyCompletion =
          map (\<lambda>day. \<lparr>dc_date = weekdayShort utcRuntime day, dc_completed = 0, dc_total = 0\<rparr>)
            [24, 25, 26, 27, 28, 29, 30],
        categoryBreakdown = [],
        timeSpent = [\<lparr>tp_date = weekdayShort utcRuntime 10, tp_minutes = 25\<rparr>],
        weeklyStats =
          \<lparr>tasksCompleted = 0, timeTracked = 0, averageTimePerTask = 0,
           completionRate = 0\<rparr>\<rparr>) \<and>
   sliceLast7 (windowDates (plusDays utcRuntime (30 * msPerDay) (- 30)) (30 * msPerDay)) =
     [24, 25, 26, 27, 28, 29, 30]"
proof -
  let ?entries = "[exampleEntry (10 * msPerDay + 3600000) (Some 600),
           exampleEntry (10 * msPerDay + 7200000) (Some 900),
           exampleEntry (29 * msPerDay) None]"
  have p: "plusDays utcRuntime (30 * msPerDay) (- 30) = 0"
    "plusDays utcRuntime (30 * msPerDay) (- 7) = 23 * msPerDay"
    by (simp_all add: utcRuntime_def)
  have al: "(0 :: int) mod msPerDay \<le> (30 * msPerDay) mod msPerDay"
    by simp
  have q: "timeEntriesQuery 0 ?entries =
      [exampleEntry (10 * msPerDay + 3600000) (Some 600),
       exampleEntry (10 * msPerDay + 7200000) (Some 900)]"
    by (simp add: timeEntriesQuery_def exampleEntry_def msPerDay_def)
  have td: "timeDataOf (Some [exampleEntry (10 * msPerDay + 3600000) (Some 600),
       exampleEntry (10 * msPerDay + 7200000) (Some 900)]) = [(10, 25)]"
    by code_simp
  have wk: "weekTimeEntriesOf (23 * msPerDay)
      (Some [exampleEntry (10 * msPerDay + 3600000) (Some 600),
             exampleEntry (10 * msPerDay + 7200000) (Some 900)]) = []"
    by (simp add: weekTimeEntriesOf_def rowsOf_def exampleEntry_def msPerDay_def)
  obtain snap where agg: "aggregate utcRuntime 0 (30 * msPerDay) (23 * msPerDay)
      (Some []) (Some [exampleEntry (10 * msPerDay + 3600000) (Some 600),
                       exampleEntry (10 * msPerDay + 7200000) (Some 900)]) = Some snap"
    using aggregate_returns [OF utcRuntime_days(2), of 0 "30 * msPerDay" "23 * msPerDay"
      "Some []" "Some [exampleEntry (10 * msPerDay + 3600000) (Some 600),
                       exampleEntry (10 * msPerDay + 7200000) (Some 900)]"]
    by (elim exE)
  have r: "rowsOf (Some ([] :: task list)) = []"
    by (simp add: rowsOf_def)
  have f1: "dailyCompletion snap =
      map (\<lambda>day. \<lparr>dc_date = weekdayShort utcRuntime day, dc_completed = 0, dc_total = 0\<rparr>)
        [24, 25, 26, 27, 28, 29, 30]"
    using empty_table_window(2) [OF agg r utcRuntime_days(1) al]
    by (simp only: windowDates_example)
  have f2: "categoryBreakdown snap = []"
    using aggregate_SomeD(2) [OF agg] by (simp add: categoryDataOf_def rowsOf_def)
  have f3: "timeSpent snap = [\<lparr>tp_date = weekdayShort utcRuntime 10, tp_minutes = 25\<rparr>]"
    using aggregate_SomeD(3) [OF agg] by (simp add: td sliceLast7_def)
  have f4: "weeklyStats snap =
      \<lparr>tasksCompleted = 0, timeTracked = 0, averageTimePerTask = 0, completionRate = 0\<rparr>"
    using aggregate_SomeD(4) [OF agg]
    by (simp add: wk weekTasksOf_def rowsOf_def weeklyStatsOf_empty)
  from f1 f2 f3 f4 have "snap =
      \<lparr>dailyCompletion =
          map (\<lambda>day. \<lparr>dc_date = weekdayShort utcRuntime day, dc_completed = 0, dc_total = 0\<rparr>)
            [24, 25, 26, 27, 28, 29, 30],
        categoryBreakdown = [],
        timeSpent = [\<lparr>tp_date = weekdayShort utcRuntime 10, tp_minutes = 25\<rparr>],
        weeklyStats =
          \<lparr>tasksCompleted = 0, timeTracked = 0, averageTimePerTask = 0,
           completionRate = 0\<rparr>\<rparr>"
    by (cases snap) simp
  with agg have "fetchAnalytics utcRuntime (30 * msPerDay) (30 * msPerDay) (30 * msPerDay) (Inr [])
     (Inr ?entries) =
   Some (Inr
      \<lparr>dailyCompletion =
          map (\<lambda>day. \<lparr>dc_date = weekdayShort utcRuntime day, dc_completed = 0, dc_total = 0\<rparr>)
            [24, 25, 26, 27, 28, 29, 30],
        categoryBreakdown = [],
        timeSpent = [\<lparr>tp_date = weekdayShort utcRuntime 10, tp_minutes = 25\<rparr>],
        weeklyStats =
          \<lparr>tasksCompleted = 0, timeTracked = 0, averageTimePerTask = 0,
           completionRate = 0\<rparr>\<rparr>)"
    unfolding fetchAnalytics_def Let_def p sum.case q
    by (simp add: tasksQuery_def)
  then show ?thesis
    by (simp add: p windowDates_example)
qed

section \<open>Error bounds of the double precision operations\<close>



















section \<open>Properties of the weekly statistics\<close>











end
